theory Spec2Isabelle
  imports Main
begin

section \<open>Python values and primitives used by \<open>app.py\<close>\<close>

text \<open>
  A Python \<open>str\<close> is a sequence of code points. It is modelled as a \<open>string\<close>, one
  \<open>char\<close> per code point, so the model covers the texts whose code points are below 256;
  slicing, \<open>startswith\<close>, \<open>split\<close> and \<open>strip\<close> count and compare code points, as
  Python does. Python's unbounded \<open>int\<close> is \<open>int\<close>.
\<close>

datatype py_exn = ValueError | IndexError | AttributeError | KeyError | TypeError

text \<open>
  \<open>str.isspace\<close> on one code point. Below 256 CPython classifies as whitespace
  U+0009..U+000D, U+001C..U+001F, U+0020, U+0085 and U+00A0.
\<close>

definition py_isspace :: "char \<Rightarrow> bool" where
  "py_isspace c =
     (let n = (of_char c :: nat)
      in (9 \<le> n \<and> n \<le> 13) \<or> (28 \<le> n \<and> n \<le> 32) \<or> n = 133 \<or> n = 160)"

text \<open>
  \<open>str.isdigit\<close> on one code point. Below 256 it holds of the decimal digits
  \<open>0\<close>..\<open>9\<close> and of the superscript digits U+00B2, U+00B3 and U+00B9, which
  \<open>int()\<close> does not accept.
\<close>

definition is_decimal :: "char \<Rightarrow> bool" where
  "is_decimal c = (let n = (of_char c :: nat) in 48 \<le> n \<and> n \<le> 57)"

definition py_isdigit :: "char \<Rightarrow> bool" where
  "py_isdigit c =
     (let n = (of_char c :: nat) in is_decimal c \<or> n = 178 \<or> n = 179 \<or> n = 185)"

text \<open>\<open>s.strip()\<close>: leading and trailing whitespace removed.\<close>

definition py_strip :: "string \<Rightarrow> string" where
  "py_strip s = rev (dropWhile py_isspace (rev (dropWhile py_isspace s)))"

text \<open>\<open>s.startswith(prefix)\<close>.\<close>

definition py_startswith :: "string \<Rightarrow> string \<Rightarrow> bool" where
  "py_startswith s prefix = (take (length prefix) s = prefix)"

text \<open>
  \<open>xs[i:j]\<close>: a negative bound counts from the end, and both bounds are clamped to
  the length of the sequence; a slice never raises.
\<close>

definition slice_bound :: "nat \<Rightarrow> int \<Rightarrow> nat" where
  "slice_bound n i = (if i < 0 then nat (max (int n + i) 0) else min (nat i) n)"

definition py_slice :: "'a list \<Rightarrow> int \<Rightarrow> int \<Rightarrow> 'a list" where
  "py_slice xs i j =
     (let lo = slice_bound (length xs) i; hi = slice_bound (length xs) j
      in drop lo (take hi xs))"

text \<open>\<open>xs[i]\<close> on a list: a negative index counts from the end, out of range raises.\<close>

definition py_index :: "'a list \<Rightarrow> int \<Rightarrow> py_exn + 'a" where
  "py_index xs i =
     (if 0 \<le> i \<and> i < int (length xs) then Inr (xs ! nat i)
      else if i < 0 \<and> - int (length xs) \<le> i then Inr (xs ! nat (int (length xs) + i))
      else Inl IndexError)"

text \<open>
  \<open>s.split(sep)\<close> for a separator of one character: the pieces between the
  occurrences of \<open>sep\<close>, at least one piece.
\<close>

fun py_split :: "char \<Rightarrow> string \<Rightarrow> string list" where
  "py_split sep [] = [[]]"
| "py_split sep (c # cs) =
     (if c = sep then [] # py_split sep cs
      else (case py_split sep cs of
              [] \<Rightarrow> [[c]]
            | p # ps \<Rightarrow> (c # p) # ps))"

text \<open>
  \<open>int(s)\<close> on a text of \<open>str.isdigit\<close> characters, the only texts the program
  passes to it: the empty text and a text with a superscript digit raise
  \<open>ValueError\<close>, and so does a text of more than \<open>sys.get_int_max_str_digits()\<close>
  characters, 4300 unless the interpreter is configured otherwise (leading zeros are
  counted); any other text of decimal digits is read in base ten.
\<close>

definition int_max_str_digits :: nat where
  "int_max_str_digits = 4300"

definition digit_value :: "char \<Rightarrow> int" where
  "digit_value c = int ((of_char c :: nat) - 48)"

definition decimal_value :: "string \<Rightarrow> int" where
  "decimal_value s = foldl (\<lambda>acc c. 10 * acc + digit_value c) 0 s"

definition py_int :: "string \<Rightarrow> py_exn + int" where
  "py_int s =
     (if s = [] \<or> \<not> list_all is_decimal s \<or> int_max_str_digits < length s
      then Inl ValueError
      else Inr (decimal_value s))"

text \<open>
  The values \<open>json.loads\<close> produces: \<open>None\<close>, \<open>bool\<close>, \<open>int\<close>, \<open>float\<close>, \<open>str\<close>,
  \<open>list\<close> and \<open>dict\<close>. A dict is an association list of its distinct keys in insertion
  order, read by \<open>map_of\<close>. A float is kept as its class: a finite value \<open>m * 2 ^ e\<close>, an infinity
  with its sign, or not-a-number.
\<close>

datatype py_float = Finite int int | Infinity bool | NaN

datatype json =
    JNull
  | JBool bool
  | JInt int
  | JFloat py_float
  | JString string
  | JArray "json list"
  | JObject "(string \<times> json) list"

text \<open>Truth value testing (\<open>if x:\<close>, \<open>not x\<close>).\<close>

fun py_truthy :: "json \<Rightarrow> bool" where
  "py_truthy JNull = False"
| "py_truthy (JBool b) = b"
| "py_truthy (JInt i) = (i \<noteq> 0)"
| "py_truthy (JFloat (Finite m e)) = (m \<noteq> 0)"
| "py_truthy (JFloat (Infinity s)) = True"
| "py_truthy (JFloat NaN) = True"
| "py_truthy (JString s) = (s \<noteq> [])"
| "py_truthy (JArray xs) = (xs \<noteq> [])"
| "py_truthy (JObject kvs) = (kvs \<noteq> [])"

section \<open>\<open>generate_roadmap\<close>\<close>

text \<open>
  What the user interface is told: \<open>st.error\<close>, \<open>st.code\<close> and \<open>st.warning\<close> calls,
  in order.
\<close>

datatype ui_event = StError string | StCode string | StWarning string

text \<open>
  An exception raised by a library call inside the \<open>try\<close>: an instance of
  \<open>json.JSONDecodeError\<close>, which the first handler takes, or any other \<open>Exception\<close>
  \<open>e\<close>, which the second handler takes and of which it shows \<open>str(e)\<close>.
\<close>

datatype raised = DecodeError | OtherError string

text \<open>
  What the service does: \<open>model.generate_content(prompt)\<close> raises (\<open>response\<close> is
  then never bound), or it returns a response. Reading \<open>response.text\<close> raises or
  gives the text, which may be absent (\<open>None\<close>); it does the same each time it is
  read.
\<close>

datatype service_outcome =
    Raised raised
  | TextRaised raised
  | Response "string option"

text \<open>
  \<open>json.loads\<close> belongs to the Python library, not to the program: it is a parameter
  \<open>loads\<close>, which gives the decoded value or the exception raised
  (\<open>json.JSONDecodeError\<close> for a text that is not JSON; \<open>RecursionError\<close> and the
  like are \<open>OtherError\<close>).
\<close>

type_synonym decoder = "string \<Rightarrow> raised + json"

text \<open>Lines 62 to 66: the text handed to \<open>json.loads\<close>.\<close>

definition clean_response :: "string \<Rightarrow> string" where
  "clean_response text =
     (let response_text = py_strip text
      in if py_startswith response_text ''```json''
         then py_strip (py_slice response_text 7 (- 3))
         else if py_startswith response_text ''```''
         then py_strip (py_slice response_text 3 (- 3))
         else response_text)"

text \<open>
  An exception that leaves \<open>generate_roadmap\<close>. The first handler reads
  \<open>response.text\<close> after its \<open>st.error\<close>: when \<open>generate_content\<close> itself raised
  \<open>JSONDecodeError\<close> the name \<open>response\<close> is unbound, and when reading the text
  raised it, reading it again raises it again. No handler of the same \<open>try\<close> takes
  an exception raised inside a handler.
\<close>

datatype escaped = UnboundLocalError | JSONDecodeError

text \<open>
  Lines 55 to 77. The result is the list of user-interface calls, and then the value
  returned (\<open>None\<close> on each failing path that returns) or the exception that leaves
  the function.
\<close>

definition generate_roadmap ::
  "decoder \<Rightarrow> service_outcome \<Rightarrow> ui_event list \<times> (escaped + json option)" where
  "generate_roadmap loads outcome =
     (case outcome of
        Raised DecodeError \<Rightarrow>
          ([StError ''Failed to parse JSON response. Raw response:''], Inl UnboundLocalError)
      | Raised (OtherError msg) \<Rightarrow> ([StError (''API Error: '' @ msg)], Inr None)
      | TextRaised DecodeError \<Rightarrow>
          ([StError ''Failed to parse JSON response. Raw response:''], Inl JSONDecodeError)
      | TextRaised (OtherError msg) \<Rightarrow> ([StError (''API Error: '' @ msg)], Inr None)
      | Response None \<Rightarrow> ([StError ''Empty response from API''], Inr None)
      | Response (Some text) \<Rightarrow>
          if text = [] then ([StError ''Empty response from API''], Inr None)
          else (case loads (clean_response text) of
                  Inl DecodeError \<Rightarrow>
                    ([StError ''Failed to parse JSON response. Raw response:'', StCode text],
                     Inr None)
                | Inl (OtherError msg) \<Rightarrow> ([StError (''API Error: '' @ msg)], Inr None)
                | Inr roadmap \<Rightarrow> ([], Inr (Some roadmap))))"

text \<open>The three failures of the specification, as what \<open>generate_roadmap\<close> gives back.\<close>

definition EmptyResponse :: "ui_event list \<times> (escaped + json option)" where
  "EmptyResponse = ([StError ''Empty response from API''], Inr None)"

definition MalformedResponse :: "string \<Rightarrow> ui_event list \<times> (escaped + json option)" where
  "MalformedResponse raw =
     ([StError ''Failed to parse JSON response. Raw response:'', StCode raw], Inr None)"

definition ServiceCallError :: "string \<Rightarrow> ui_event list \<times> (escaped + json option)" where
  "ServiceCallError msg = ([StError (''API Error: '' @ msg)], Inr None)"

section \<open>The generate action of \<open>main\<close>\<close>

text \<open>
  Lines 141 to 148, run when the button is pressed: the user-interface calls, the
  exception that leaves \<open>main\<close> if \<open>generate_roadmap\<close> let one out, and
  \<open>st.session_state\<close> afterwards, as the optional value under its key \<open>roadmap\<close>.
  \<open>if roadmap:\<close> tests the returned value, \<open>None\<close> being false; an exception
  skips the rest of the block.
\<close>

record main_result =
  events :: "ui_event list"
  propagated :: "escaped option"
  stored :: "json option"

definition main_generate ::
  "decoder \<Rightarrow> string \<Rightarrow> string \<Rightarrow> service_outcome \<Rightarrow> json option \<Rightarrow> main_result" where
  "main_generate loads current_status target_role outcome session =
     (if current_status \<noteq> [] \<and> target_role \<noteq> []
      then (case generate_roadmap loads outcome of
              (shown, Inl e) \<Rightarrow>
                \<lparr>events = shown, propagated = Some e, stored = session\<rparr>
            | (shown, Inr None) \<Rightarrow>
                \<lparr>events = shown, propagated = None, stored = session\<rparr>
            | (shown, Inr (Some roadmap)) \<Rightarrow>
                \<lparr>events = shown, propagated = None,
                 stored = (if py_truthy roadmap then Some roadmap else session)\<rparr>)
      else \<lparr>events = [StWarning ''Please fill all fields''], propagated = None,
            stored = session\<rparr>)"

section \<open>\<open>plot_timeline\<close>\<close>

text \<open>
  \<open>d.get(key, default)\<close>: only a dict has the method; on every other value the
  attribute lookup raises \<open>AttributeError\<close>.
\<close>

definition py_get :: "json \<Rightarrow> string \<Rightarrow> json \<Rightarrow> py_exn + json" where
  "py_get d key dflt =
     (case d of
        JObject kvs \<Rightarrow> Inr (case map_of kvs key of None \<Rightarrow> dflt | Some v \<Rightarrow> v)
      | _ \<Rightarrow> Inl AttributeError)"

text \<open>
  \<open>v[key]\<close> with a text key: a dict without the key raises \<open>KeyError\<close>; a list or a
  text wants an integer index and every other value is not subscriptable, which is
  \<open>TypeError\<close>.
\<close>

definition py_getitem :: "json \<Rightarrow> string \<Rightarrow> py_exn + json" where
  "py_getitem v key =
     (case v of
        JObject kvs \<Rightarrow> (case map_of kvs key of None \<Rightarrow> Inl KeyError | Some x \<Rightarrow> Inr x)
      | _ \<Rightarrow> Inl TypeError)"

text \<open>
  The items a \<open>for\<close> loop (or \<open>str.join\<close>) draws from a value: the elements of a
  list, the characters of a text, the keys of a dict; nothing else is iterable.
\<close>

definition py_iter :: "json \<Rightarrow> py_exn + json list" where
  "py_iter v =
     (case v of
        JArray xs \<Rightarrow> Inr xs
      | JString s \<Rightarrow> Inr (map (\<lambda>c. JString [c]) s)
      | JObject kvs \<Rightarrow> Inr (map (\<lambda>kv. JString (fst kv)) kvs)
      | _ \<Rightarrow> Inl TypeError)"

text \<open>\<open>sep.join(v)\<close>: every item must be a text.\<close>

fun join_strs :: "string \<Rightarrow> string list \<Rightarrow> string" where
  "join_strs sep [] = []"
| "join_strs sep [x] = x"
| "join_strs sep (x # y # ys) = x @ sep @ join_strs sep (y # ys)"

fun str_of :: "json \<Rightarrow> string option" where
  "str_of (JString s) = Some s"
| "str_of _ = None"

definition py_join :: "string \<Rightarrow> json \<Rightarrow> py_exn + string" where
  "py_join sep v =
     (case py_iter v of
        Inl e \<Rightarrow> Inl TypeError
      | Inr items \<Rightarrow>
          if list_all (\<lambda>x. str_of x \<noteq> None) items
          then Inr (join_strs sep (map (\<lambda>x. the (str_of x)) items))
          else Inl TypeError)"

text \<open>One entry of \<open>gantt_data\<close> (lines 99 to 105).\<close>

record timeline_record =
  Task :: json
  Phase :: json
  Start :: int
  Finish :: int
  Milestones :: string

text \<open>
  Lines 90 to 93, the body of the \<open>try\<close>. A phase name that is not a text has no
  \<open>split\<close> method; unpacking into \<open>start_str, end_str\<close> wants exactly two pieces.
\<close>

definition extract_range :: "json \<Rightarrow> py_exn + (int \<times> int)" where
  "extract_range phase_name =
     (case phase_name of
        JString s \<Rightarrow>
          (case py_index (py_split (CHR ''('') s) (- 1) of
             Inl e \<Rightarrow> Inl e
           | Inr after_paren \<Rightarrow>
               (case py_index (py_split (CHR '')'') after_paren) 0 of
                  Inl e \<Rightarrow> Inl e
                | Inr time_range \<Rightarrow>
                    (case py_slice (py_split (CHR ''-'') time_range) 0 2 of
                       [start_str, end_str] \<Rightarrow>
                         (case py_int (filter py_isdigit start_str) of
                            Inl e \<Rightarrow> Inl e
                          | Inr start \<Rightarrow>
                              (case py_int (filter py_isdigit end_str) of
                                 Inl e \<Rightarrow> Inl e
                               | Inr finish \<Rightarrow> Inr (start, finish)))
                     | _ \<Rightarrow> Inl ValueError)))
      | _ \<Rightarrow> Inl AttributeError)"

text \<open>
  Lines 89 to 96, the \<open>try\<close> with its handler for \<open>ValueError\<close>, \<open>IndexError\<close> and
  \<open>AttributeError\<close>; any other exception would pass through.
\<close>

definition phase_range :: "json \<Rightarrow> py_exn + (int \<times> int)" where
  "phase_range phase_name =
     (case extract_range phase_name of
        Inr r \<Rightarrow> Inr r
      | Inl e \<Rightarrow>
          if e = ValueError \<or> e = IndexError \<or> e = AttributeError then Inr (0, 3)
          else Inl e)"

text \<open>Lines 98 to 105: the loop over the focus areas of one phase.\<close>

fun focus_loop ::
  "json \<Rightarrow> json \<Rightarrow> int \<Rightarrow> int \<Rightarrow> json list \<Rightarrow> timeline_record list
     \<Rightarrow> py_exn + timeline_record list" where
  "focus_loop phase phase_name start finish [] gantt_data = Inr gantt_data"
| "focus_loop phase phase_name start finish (area # areas) gantt_data =
     (case py_getitem phase ''milestones'' of
        Inl e \<Rightarrow> Inl e
      | Inr ms \<Rightarrow>
          (case py_join ''\<newline>'' ms of
             Inl e \<Rightarrow> Inl e
           | Inr joined \<Rightarrow>
               focus_loop phase phase_name start finish areas
                 (gantt_data @
                    [\<lparr>Task = area, Phase = phase_name, Start = start, Finish = finish,
                      Milestones = joined\<rparr>])))"

text \<open>Lines 85 to 105: the loop over the phases.\<close>

fun phase_loop :: "json list \<Rightarrow> timeline_record list \<Rightarrow> py_exn + timeline_record list" where
  "phase_loop [] gantt_data = Inr gantt_data"
| "phase_loop (phase # phases) gantt_data =
     (case py_getitem phase ''phase'' of
        Inl e \<Rightarrow> Inl e
      | Inr phase_name \<Rightarrow>
          (case phase_range phase_name of
             Inl e \<Rightarrow> Inl e
           | Inr (start, finish) \<Rightarrow>
               (case py_getitem phase ''focus_areas'' of
                  Inl e \<Rightarrow> Inl e
                | Inr focus_areas \<Rightarrow>
                    (case py_iter focus_areas of
                       Inl e \<Rightarrow> Inl e
                     | Inr areas \<Rightarrow>
                         (case focus_loop phase phase_name start finish areas gantt_data of
                            Inl e \<Rightarrow> Inl e
                          | Inr gantt_data' \<Rightarrow> phase_loop phases gantt_data')))))"

text \<open>Lines 84 to 105: \<open>gantt_data\<close> as it stands after the loop.\<close>

definition build_gantt :: "json \<Rightarrow> py_exn + timeline_record list" where
  "build_gantt roadmap_data =
     (case py_get roadmap_data ''timeline'' (JArray []) of
        Inl e \<Rightarrow> Inl e
      | Inr timeline \<Rightarrow>
          (case py_iter timeline of
             Inl e \<Rightarrow> Inl e
           | Inr phases \<Rightarrow> phase_loop phases []))"

text \<open>
  Lines 79 to 127. \<open>NoChart\<close> is a plain \<open>return\<close> before the chart is built;
  \<open>Chart\<close> carries the records handed to \<open>px.timeline\<close> and drawn by
  \<open>st.plotly_chart\<close>.
\<close>

datatype plot_result = NoChart | Chart "timeline_record list"

definition plot_timeline :: "json \<Rightarrow> py_exn + plot_result" where
  "plot_timeline roadmap_data =
     (if \<not> py_truthy roadmap_data then Inr NoChart
      else (case build_gantt roadmap_data of
              Inl e \<Rightarrow> Inl e
            | Inr gantt_data \<Rightarrow>
                if gantt_data = [] then Inr NoChart else Inr (Chart gantt_data)))"

section \<open>Texts and values used to state the properties\<close>

text \<open>A payload wrapped in a plain fence and in a fence tagged \<open>json\<close>.\<close>

definition fenced :: "string \<Rightarrow> string" where
  "fenced p = ''```\<newline>'' @ p @ ''\<newline>```''"

definition fenced_json :: "string \<Rightarrow> string" where
  "fenced_json p = ''```json\<newline>'' @ p @ ''\<newline>```''"

text \<open>
  What the JSON grammar gives for a text \<open>p\<close> that \<open>json.loads\<close> accepts, stated for
  the parameter \<open>loads\<close>: the text is not empty, it does not begin with a fence once
  the surrounding whitespace is removed, and that whitespace does not change the
  value decoded.
\<close>

definition json_text :: "decoder \<Rightarrow> string \<Rightarrow> bool" where
  "json_text loads p =
     (p \<noteq> [] \<and> \<not> py_startswith (py_strip p) ''```'' \<and> loads (py_strip p) = loads p)"

text \<open>
  The first example scenario of the specification: the payload, the value
  \<open>json.loads\<close> gives for it, and a decoder that agrees with \<open>json.loads\<close> on the
  texts it accepts (the payload, \<open>{}\<close> and \<open>null\<close>) and rejects every other text.
\<close>

definition example_payload :: string where
  \<open>example_payload =
     ''{"roadmap_name":"X","gap_analysis":"g","timeline":[{"phase":"Phase 1 (0-3 months)","focus_areas":["SQL"],"milestones":["m1"],"tasks":["t1"]}],"estimated_time":"3-6 months"}''\<close>

definition example_roadmap :: json where
  "example_roadmap =
     JObject
       [(''roadmap_name'', JString ''X''),
        (''gap_analysis'', JString ''g''),
        (''timeline'',
           JArray
             [JObject
                [(''phase'', JString ''Phase 1 (0-3 months)''),
                 (''focus_areas'', JArray [JString ''SQL'']),
                 (''milestones'', JArray [JString ''m1'']),
                 (''tasks'', JArray [JString ''t1''])]]),
        (''estimated_time'', JString ''3-6 months'')]"

definition example_loads :: decoder where
  "example_loads s =
     (if s = example_payload then Inr example_roadmap
      else if s = ''{}'' then Inr (JObject [])
      else if s = ''null'' then Inr JNull
      else Inl DecodeError)"

text \<open>
  A response that opens a fence and never closes it, and a decoder that accepts the
  payload of that response and nothing else.
\<close>

definition truncated_response :: string where
  \<open>truncated_response = ''```json\<newline>{"a": 1}''\<close>

definition small_loads :: decoder where
  \<open>small_loads s = (if s = ''{"a": 1}'' then Inr (JObject [(''a'', JInt 1)]) else Inl DecodeError)\<close>

text \<open>
  A text of opening brackets nested deeper than the interpreter's recursion limit,
  on which \<open>json.loads\<close> raises \<open>RecursionError\<close>; \<open>str(e)\<close> of that exception, in
  the words of CPython's decoder; and a decoder that raises it on this text and is
  \<open>example_loads\<close> on every other.
\<close>

definition nested_text :: string where
  "nested_text = replicate 100000 (CHR ''['')"

definition recursion_message :: string where
  "recursion_message =
     ''maximum recursion depth exceeded while decoding a JSON array from a unicode string''"

definition nested_loads :: decoder where
  "nested_loads s =
     (if s = nested_text then Inl (OtherError recursion_message) else example_loads s)"

section \<open>What the timeline extractor is expected to produce\<close>

text \<open>
  The text the program parses for the month range: what follows the last
  \<open>(\<close> of the label, up to the next \<open>)\<close>; the whole label when
  it has no parenthesis.
\<close>

definition range_text :: "string \<Rightarrow> string" where
  "range_text label =
     takeWhile (\<lambda>c. c \<noteq> CHR '')'') (rev (takeWhile (\<lambda>c. c \<noteq> CHR ''('') (rev label)))"

text \<open>
  The labels whose range text has no dash, or one of whose first two dash-separated
  pieces has no \<open>str.isdigit\<close> character.
\<close>

definition fallback_label :: "string \<Rightarrow> bool" where
  "fallback_label label =
     (let pieces = take 2 (py_split (CHR ''-'') (range_text label))
      in length pieces < 2 \<or> list_ex (\<lambda>piece. filter py_isdigit piece = []) pieces)"

text \<open>
  The value under a key, for values that have it (\<open>JNull\<close> otherwise), the
  elements of a list and the texts among them.
\<close>

definition the_field :: "json \<Rightarrow> string \<Rightarrow> json" where
  "the_field v key = (case py_getitem v key of Inr x \<Rightarrow> x | Inl e \<Rightarrow> JNull)"

fun items :: "json \<Rightarrow> json list" where
  "items (JArray xs) = xs"
| "items _ = []"

fun is_text :: "json \<Rightarrow> bool" where
  "is_text (JString s) = True"
| "is_text _ = False"

fun is_list :: "json \<Rightarrow> bool" where
  "is_list (JArray xs) = True"
| "is_list _ = False"

definition texts :: "json \<Rightarrow> string list" where
  "texts v = List.map_filter str_of (items v)"

text \<open>\<open>v[key]\<close> does not raise: \<open>v\<close> is a dict that has the key.\<close>

definition has_key :: "json \<Rightarrow> string \<Rightarrow> bool" where
  "has_key v key = (case py_getitem v key of Inr x \<Rightarrow> True | Inl e \<Rightarrow> False)"

text \<open>
  A phase as the data model of the specification has it: the keys \<open>phase\<close>,
  \<open>focus_areas\<close> and \<open>milestones\<close> are present, the focus areas are a list and
  the milestones are a list of texts.
\<close>

definition phase_ok :: "json \<Rightarrow> bool" where
  "phase_ok phase =
     (has_key phase ''phase'' \<and> has_key phase ''focus_areas'' \<and> has_key phase ''milestones''
      \<and> is_list (the_field phase ''focus_areas'')
      \<and> is_list (the_field phase ''milestones'')
      \<and> list_all is_text (items (the_field phase ''milestones'')))"

text \<open>The month range the program reads from a phase name.\<close>

definition month_range :: "json \<Rightarrow> int \<times> int" where
  "month_range phase_name = (case phase_range phase_name of Inr r \<Rightarrow> r | Inl e \<Rightarrow> (0, 3))"

text \<open>
  The records the specification asks for from one phase: one per focus area, in order,
  with the focus area as the task, the label of the phase, the month range read from
  the label and the milestones joined by newlines.
\<close>

definition expected_records :: "json \<Rightarrow> timeline_record list" where
  "expected_records phase =
     map (\<lambda>area.
            \<lparr>Task = area,
             Phase = the_field phase ''phase'',
             Start = fst (month_range (the_field phase ''phase'')),
             Finish = snd (month_range (the_field phase ''phase'')),
             Milestones = join_strs ''\<newline>'' (texts (the_field phase ''milestones''))\<rparr>)
         (items (the_field phase ''focus_areas''))"

text \<open>
  A phase built from a label, focus areas and milestones, for the examples.
\<close>

definition sample_phase :: "string \<Rightarrow> string list \<Rightarrow> string list \<Rightarrow> json" where
  "sample_phase label areas milestones =
     JObject
       [(''phase'', JString label),
        (''focus_areas'', JArray (map JString areas)),
        (''milestones'', JArray (map JString milestones)),
        (''tasks'', JArray [])]"

section \<open>Fence stripping\<close>

lemma py_strip_Cons_space: "py_isspace c \<Longrightarrow> py_strip (c # s) = py_strip s"
  by (simp add: py_strip_def)

lemma dropWhile_all: "\<forall>x\<in>set xs. P x \<Longrightarrow> dropWhile P xs = []"
  by (induction xs) auto

lemma py_strip_snoc_space:
  assumes "py_isspace c"
  shows "py_strip (s @ [c]) = py_strip s"
proof (cases "\<forall>x\<in>set s. py_isspace x")
  case True
  then have a: "dropWhile py_isspace s = []"
    by (rule dropWhile_all)
  have b: "dropWhile py_isspace (s @ [c]) = []"
    using True assms by (intro dropWhile_all) simp
  show ?thesis
    unfolding py_strip_def a b ..
next
  case False
  then obtain x where "x \<in> set s" and "\<not> py_isspace x"
    by blast
  then have "dropWhile py_isspace (s @ [c]) = dropWhile py_isspace s @ [c]"
    by (rule dropWhile_append1)
  then show ?thesis
    by (simp add: py_strip_def assms)
qed

lemma py_slice_middle:
  "py_slice (a @ m @ b) (int (length a)) (- int (length b)) = (if b = [] then [] else m)"
  by (simp add: py_slice_def slice_bound_def)

lemma py_strip_solid:
  "\<not> py_isspace a \<Longrightarrow> \<not> py_isspace b \<Longrightarrow> py_strip (a # s @ [b]) = a # s @ [b]"
  by (simp add: py_strip_def)

lemma isspace_newline: "py_isspace CHR ''\<newline>''"
  by (simp add: py_isspace_def)

lemma not_isspace_backtick: "\<not> py_isspace CHR ''`''"
  by (simp add: py_isspace_def)

lemma clean_fenced: "clean_response (fenced p) = py_strip p"
proof -
  have s: "py_strip (fenced p) = fenced p"
    using py_strip_solid [of "CHR ''`''" "CHR ''`''" "''``\<newline>'' @ p @ ''\<newline>``''"]
    by (simp add: fenced_def not_isspace_backtick)
  have sl: "py_slice (fenced p) 3 (- 3) = CHR ''\<newline>'' # p @ [CHR ''\<newline>'']"
    using py_slice_middle [of "''```''" "CHR ''\<newline>'' # p @ [CHR ''\<newline>'']" "''```''"]
    by (simp add: fenced_def)
  have "py_strip (CHR ''\<newline>'' # p @ [CHR ''\<newline>'']) = py_strip p"
    using py_strip_snoc_space [of "CHR ''\<newline>''" "CHR ''\<newline>'' # p"]
    by (simp add: py_strip_Cons_space isspace_newline)
  with s sl show ?thesis
    by (simp add: clean_response_def) (simp add: fenced_def py_startswith_def)
qed

lemma clean_fenced_json: "clean_response (fenced_json p) = py_strip p"
proof -
  have s: "py_strip (fenced_json p) = fenced_json p"
    using py_strip_solid [of "CHR ''`''" "CHR ''`''" "''``json\<newline>'' @ p @ ''\<newline>``''"]
    by (simp add: fenced_json_def not_isspace_backtick)
  have sl: "py_slice (fenced_json p) 7 (- 3) = CHR ''\<newline>'' # p @ [CHR ''\<newline>'']"
    using py_slice_middle [of "''```json''" "CHR ''\<newline>'' # p @ [CHR ''\<newline>'']" "''```''"]
    by (simp add: fenced_json_def)
  have "py_strip (CHR ''\<newline>'' # p @ [CHR ''\<newline>'']) = py_strip p"
    using py_strip_snoc_space [of "CHR ''\<newline>''" "CHR ''\<newline>'' # p"]
    by (simp add: py_strip_Cons_space isspace_newline)
  with s sl show ?thesis
    by (simp add: clean_response_def) (simp add: fenced_json_def py_startswith_def)
qed

lemma startswith_json_fence:
  "py_startswith s ''```json'' \<Longrightarrow> py_startswith s ''```''"
proof -
  assume "py_startswith s ''```json''"
  then have e: "take (length ''```json'') s = ''```json''"
    unfolding py_startswith_def .
  have "take (length ''```'') s = take (length ''```'') (take (length ''```json'') s)"
    by simp
  also have "\<dots> = ''```''"
    unfolding e by simp
  finally show ?thesis
    unfolding py_startswith_def .
qed

lemma clean_unfenced:
  "\<not> py_startswith (py_strip p) ''```'' \<Longrightarrow> clean_response p = py_strip p"
  using startswith_json_fence [of "py_strip p"] by (auto simp add: clean_response_def Let_def)

lemma dropWhile_fixed: "xs = [] \<or> \<not> P (hd xs) \<Longrightarrow> dropWhile P xs = xs"
  by (cases xs) auto

lemma last_dropWhile_nonempty:
  "dropWhile P xs \<noteq> [] \<Longrightarrow> last (dropWhile P xs) = last xs"
  by (induction xs) (auto split: if_splits)

lemma py_strip_idem: "py_strip (py_strip s) = py_strip s"
proof -
  define t where "t = dropWhile py_isspace s"
  define u where "u = dropWhile py_isspace (rev t)"
  have r: "py_strip s = rev u"
    by (simp add: py_strip_def t_def u_def)
  have u_fix: "dropWhile py_isspace u = u"
    by (simp add: u_def)
  have "dropWhile py_isspace (rev u) = rev u"
  proof (cases "u = []")
    case True
    then show ?thesis by simp
  next
    case False
    then have t_ne: "t \<noteq> []" by (auto simp: u_def)
    have "\<not> py_isspace (hd t)"
      using t_ne hd_dropWhile [of py_isspace s] by (simp add: t_def)
    moreover have "last u = last (rev t)"
      using False by (simp add: u_def last_dropWhile_nonempty)
    ultimately have "\<not> py_isspace (last u)"
      using t_ne by (simp add: last_rev)
    then show ?thesis
      using False by (intro dropWhile_fixed) (simp add: hd_rev)
  qed
  then show ?thesis
    by (simp add: r py_strip_def [of "rev u"] u_fix)
qed

lemma example_payload_strip: "py_strip example_payload = example_payload"
  by (simp add: py_strip_def example_payload_def py_isspace_def)

lemma generate_roadmap_failure_cases:
  assumes "snd (generate_roadmap loads outcome) = Inr None"
  shows "generate_roadmap loads outcome = EmptyResponse
       \<or> (\<exists>raw. generate_roadmap loads outcome = MalformedResponse raw)
       \<or> (\<exists>msg. generate_roadmap loads outcome = ServiceCallError msg)"
  using assms
  by (auto simp: generate_roadmap_def EmptyResponse_def MalformedResponse_def
      ServiceCallError_def
      split: service_outcome.splits raised.splits option.splits sum.splits if_splits)

lemma no_fence_by_head:
  "s \<noteq> [] \<Longrightarrow> hd s \<noteq> CHR ''`'' \<Longrightarrow> \<not> py_startswith s ''```''"
  by (cases s) (auto simp: py_startswith_def)

lemma clean_nested_text: "clean_response nested_text = nested_text"
proof -
  have b: "\<not> py_isspace (CHR ''['')"
    by (simp add: py_isspace_def)
  have s: "py_strip nested_text = nested_text"
    by (simp add: py_strip_def nested_text_def dropWhile_replicate b)
  have "\<not> py_startswith nested_text ''```''"
    by (rule no_fence_by_head) (simp_all add: nested_text_def)
  then show ?thesis
    using clean_unfenced [of nested_text] by (simp add: s)
qed

section \<open>The response normalizer and the session\<close>

text \<open>
  C1. A payload \<open>p\<close> that decodes to \<open>r\<close> is recovered unchanged by
  \<open>generate_roadmap\<close> from \<open>p\<close> itself, from \<open>p\<close> in a plain fence and from \<open>p\<close>
  in a \<open>json\<close> fence: each of the three returns \<open>r\<close> and reports nothing. Cleaning
  the cleaned text again changes nothing.
\<close>

theorem fence_stripping_lossless:
  assumes "loads p = Inr r" and "json_text loads p"
  shows "generate_roadmap loads (Response (Some p)) = ([], Inr (Some r))
       \<and> generate_roadmap loads (Response (Some (fenced p))) = ([], Inr (Some r))
       \<and> generate_roadmap loads (Response (Some (fenced_json p))) = ([], Inr (Some r))
       \<and> clean_response (clean_response (fenced p)) = clean_response (fenced p)
       \<and> clean_response (clean_response (fenced_json p)) = clean_response (fenced_json p)"
proof -
  from assms have ne: "p \<noteq> []" and nf: "\<not> py_startswith (py_strip p) ''```''"
    and dec: "loads (py_strip p) = Inr r"
    by (simp_all add: json_text_def)
  have plain: "clean_response p = py_strip p"
    using nf by (rule clean_unfenced)
  have again: "clean_response (py_strip p) = py_strip p"
    using nf clean_unfenced [of "py_strip p"] by (simp add: py_strip_idem)
  have f_ne: "fenced p \<noteq> []" and fj_ne: "fenced_json p \<noteq> []"
    by (simp_all add: fenced_def fenced_json_def)
  have "generate_roadmap loads (Response (Some p)) = ([], Inr (Some r))"
    using ne dec by (simp add: generate_roadmap_def plain)
  moreover have "generate_roadmap loads (Response (Some (fenced p))) = ([], Inr (Some r))"
    using f_ne dec by (simp add: generate_roadmap_def clean_fenced)
  moreover have "generate_roadmap loads (Response (Some (fenced_json p))) = ([], Inr (Some r))"
    using fj_ne dec by (simp add: generate_roadmap_def clean_fenced_json)
  ultimately show ?thesis
    by (simp add: clean_fenced clean_fenced_json again)
qed

theorem fence_stripping_lossless_witness:
  "example_loads example_payload = Inr example_roadmap
   \<and> json_text example_loads example_payload
   \<and> generate_roadmap example_loads (Response (Some example_payload))
       = ([], Inr (Some example_roadmap))
   \<and> generate_roadmap example_loads (Response (Some (fenced example_payload)))
       = ([], Inr (Some example_roadmap))
   \<and> generate_roadmap example_loads (Response (Some (fenced_json example_payload)))
       = ([], Inr (Some example_roadmap))"
proof -
  have h1: "example_loads example_payload = Inr example_roadmap"
    by (simp add: example_loads_def)
  have h2: "json_text example_loads example_payload"
    unfolding json_text_def example_payload_strip
    by (simp add: example_payload_def py_startswith_def)
  from fence_stripping_lossless [OF h1 h2] h1 h2 show ?thesis
    by simp
qed

text \<open>
  C2. The slice \<open>[7:-3]\<close> drops the last three characters whether or not they are a
  fence. On a response with an opening fence and no closing one the decoder is handed
  the payload without its last three characters, so a payload that decodes is
  reported as malformed.
\<close>

theorem missing_trailing_fence_cuts_payload:
  \<open>clean_response truncated_response = ''{"a":''
   \<and> generate_roadmap small_loads (Response (Some truncated_response))
       = MalformedResponse truncated_response\<close>
proof -
  have c: \<open>clean_response truncated_response = ''{"a":''\<close>
    by (simp add: clean_response_def truncated_response_def py_strip_def py_isspace_def
        py_startswith_def py_slice_def slice_bound_def)
  have \<open>truncated_response \<noteq> []\<close>
    by (simp add: truncated_response_def)
  then show ?thesis
    by (simp add: c generate_roadmap_def MalformedResponse_def small_loads_def)
qed

text \<open>
  C3, amended. An absent or empty response text gives \<open>EmptyResponse\<close>. A text that
  is not empty and on whose cleaned form the decoder raises \<open>JSONDecodeError\<close> gives
  \<open>MalformedResponse\<close> with the raw text as it was received. When the decoder raises
  any other exception the second handler takes it: the result is
  \<open>ServiceCallError\<close>, without the raw text. None of the three carries a roadmap.
\<close>

theorem normalizer_failures:
  "generate_roadmap loads (Response None) = EmptyResponse
   \<and> generate_roadmap loads (Response (Some [])) = EmptyResponse
   \<and> (raw \<noteq> [] \<and> loads (clean_response raw) = Inl DecodeError
        \<longrightarrow> generate_roadmap loads (Response (Some raw)) = MalformedResponse raw)
   \<and> (raw \<noteq> [] \<and> loads (clean_response raw) = Inl (OtherError msg)
        \<longrightarrow> generate_roadmap loads (Response (Some raw)) = ServiceCallError msg)
   \<and> snd EmptyResponse = Inr None
   \<and> snd (MalformedResponse raw) = Inr None
   \<and> snd (ServiceCallError msg) = Inr None"
  by (simp add: generate_roadmap_def EmptyResponse_def MalformedResponse_def
      ServiceCallError_def)

theorem normalizer_failures_witness:
  "''not json at all'' \<noteq> []
   \<and> example_loads (clean_response ''not json at all'') = Inl DecodeError
   \<and> generate_roadmap example_loads (Response (Some ''not json at all''))
       = MalformedResponse ''not json at all''
   \<and> generate_roadmap example_loads (Response (Some [])) = EmptyResponse
   \<and> nested_text \<noteq> []
   \<and> nested_loads (clean_response nested_text) = Inl (OtherError recursion_message)
   \<and> generate_roadmap nested_loads (Response (Some nested_text))
       = ServiceCallError recursion_message"
proof -
  have c: "clean_response ''not json at all'' = ''not json at all''"
    by (simp add: clean_response_def py_strip_def py_isspace_def py_startswith_def)
  have h: "example_loads (clean_response ''not json at all'') = Inl DecodeError"
    unfolding c by (simp add: example_loads_def example_payload_def)
  have n: "nested_text \<noteq> []"
    by (simp add: nested_text_def)
  have k: "nested_loads (clean_response nested_text) = Inl (OtherError recursion_message)"
    unfolding clean_nested_text by (simp add: nested_loads_def)
  from normalizer_failures [of example_loads "''not json at all''"]
       normalizer_failures [of nested_loads nested_text recursion_message]
       h n k
  show ?thesis by simp
qed

text \<open>
  C3 as stated fails: on a text that is not JSON and makes \<open>json.loads\<close> raise
  \<open>RecursionError\<close> the result is the service-call error, which does not carry the
  raw text, and not \<open>MalformedResponse\<close>.
\<close>

theorem deep_nesting_counterexample:
  "nested_text \<noteq> []
   \<and> nested_loads (clean_response nested_text) \<noteq> Inr example_roadmap
   \<and> generate_roadmap nested_loads (Response (Some nested_text))
       = ([StError (''API Error: '' @ recursion_message)], Inr None)
   \<and> generate_roadmap nested_loads (Response (Some nested_text))
       \<noteq> MalformedResponse nested_text"
proof -
  have n: "nested_text \<noteq> []"
    by (simp add: nested_text_def)
  have k: "nested_loads (clean_response nested_text) = Inl (OtherError recursion_message)"
    unfolding clean_nested_text by (simp add: nested_loads_def)
  show ?thesis
    using n by (simp add: generate_roadmap_def k MalformedResponse_def)
qed

text \<open>
  C8. When the generation fails, that is when \<open>generate_roadmap\<close> returns \<open>None\<close>,
  as it does with \<open>EmptyResponse\<close>, \<open>MalformedResponse\<close> and \<open>ServiceCallError\<close>,
  or lets an exception out, the stored roadmap is what it was before. When the stored
  roadmap differs after the action, the generation returned a roadmap and that roadmap
  is the one stored.
\<close>

theorem failed_generation_keeps_session:
  "(generate_roadmap loads outcome = EmptyResponse
      \<or> generate_roadmap loads outcome = MalformedResponse raw
      \<or> generate_roadmap loads outcome = ServiceCallError msg
      \<or> snd (generate_roadmap loads outcome) = Inr None
      \<or> snd (generate_roadmap loads outcome) = Inl e
     \<longrightarrow> stored (main_generate loads current_status target_role outcome session) = session)
   \<and> (stored (main_generate loads current_status target_role outcome session) \<noteq> session
     \<longrightarrow> (\<exists>roadmap. generate_roadmap loads outcome = ([], Inr (Some roadmap))
            \<and> stored (main_generate loads current_status target_role outcome session)
                = Some roadmap))"
  by (auto simp: main_generate_def generate_roadmap_def EmptyResponse_def
      MalformedResponse_def ServiceCallError_def
      split: service_outcome.splits raised.splits option.splits sum.splits if_splits
        prod.splits)

theorem failed_generation_keeps_session_witness:
  "generate_roadmap example_loads (Response (Some ''not json at all''))
     = MalformedResponse ''not json at all''
   \<and> stored (main_generate example_loads ''python'' ''data engineer''
               (Response (Some ''not json at all'')) (Some example_roadmap))
       = Some example_roadmap
   \<and> snd (generate_roadmap example_loads (Raised DecodeError)) = Inl UnboundLocalError
   \<and> stored (main_generate example_loads ''python'' ''data engineer''
               (Raised DecodeError) (Some example_roadmap))
       = Some example_roadmap
   \<and> stored (main_generate example_loads ''python'' ''data engineer''
               (Response (Some example_payload)) None) \<noteq> None
   \<and> generate_roadmap example_loads (Response (Some example_payload))
       = ([], Inr (Some example_roadmap))"
proof -
  have c: "clean_response ''not json at all'' = ''not json at all''"
    by (simp add: clean_response_def py_strip_def py_isspace_def py_startswith_def)
  have h: "generate_roadmap example_loads (Response (Some ''not json at all''))
           = MalformedResponse ''not json at all''"
    by (simp add: generate_roadmap_def c MalformedResponse_def example_loads_def
        example_payload_def)
  have u: "snd (generate_roadmap example_loads (Raised DecodeError)) = Inl UnboundLocalError"
    by (simp add: generate_roadmap_def)
  have p: "clean_response example_payload = example_payload"
    using clean_unfenced [of example_payload] unfolding example_payload_strip
    by (simp add: example_payload_def py_startswith_def)
  have g: "generate_roadmap example_loads (Response (Some example_payload))
           = ([], Inr (Some example_roadmap))"
    unfolding generate_roadmap_def by (simp add: p example_loads_def) (simp add: example_payload_def)
  have n: "stored (main_generate example_loads ''python'' ''data engineer''
                    (Response (Some example_payload)) None) \<noteq> None"
    by (simp add: main_generate_def g example_roadmap_def)
  from failed_generation_keeps_session
         [of example_loads "Response (Some ''not json at all'')" "''not json at all''" _ _
             "''python''" "''data engineer''" "Some example_roadmap"]
       failed_generation_keeps_session
         [of example_loads "Raised DecodeError" _ _ UnboundLocalError
             "''python''" "''data engineer''" "Some example_roadmap"]
       failed_generation_keeps_session
         [of example_loads "Response (Some example_payload)" _ _ _
             "''python''" "''data engineer''" None]
       h u n g
  show ?thesis by simp
qed

text \<open>
  C10. When the decoder succeeds with a value that tests false, \<open>generate_roadmap\<close>
  returns it and reports nothing, and the stored roadmap is what it was before.
\<close>

theorem falsy_decode_keeps_session:
  assumes "text \<noteq> []" and "loads (clean_response text) = Inr r" and "\<not> py_truthy r"
  shows "generate_roadmap loads (Response (Some text)) = ([], Inr (Some r))
       \<and> stored (main_generate loads current_status target_role (Response (Some text)) session)
           = session
       \<and> (current_status \<noteq> [] \<and> target_role \<noteq> []
            \<longrightarrow> main_generate loads current_status target_role (Response (Some text)) session
                = \<lparr>events = [], propagated = None, stored = session\<rparr>)"
  using assms by (simp add: main_generate_def generate_roadmap_def)

theorem falsy_decode_keeps_session_witness:
  "''{}'' \<noteq> [] \<and> example_loads (clean_response ''{}'') = Inr (JObject [])
   \<and> \<not> py_truthy (JObject [])
   \<and> main_generate example_loads ''python'' ''data engineer'' (Response (Some ''{}''))
        (Some example_roadmap)
       = \<lparr>events = [], propagated = None, stored = Some example_roadmap\<rparr>
   \<and> example_loads (clean_response ''null'') = Inr JNull
   \<and> \<not> py_truthy JNull
   \<and> main_generate example_loads ''python'' ''data engineer'' (Response (Some ''null''))
        (Some example_roadmap)
       = \<lparr>events = [], propagated = None, stored = Some example_roadmap\<rparr>"
proof -
  have c1: "clean_response ''{}'' = ''{}''" and c2: "clean_response ''null'' = ''null''"
    by (simp_all add: clean_response_def py_strip_def py_isspace_def py_startswith_def)
  have h1: "example_loads (clean_response ''{}'') = Inr (JObject [])"
    and h2: "example_loads (clean_response ''null'') = Inr JNull"
    unfolding c1 c2 by (simp_all add: example_loads_def example_payload_def)
  from falsy_decode_keeps_session
         [of "''{}''" example_loads "JObject []" "''python''" "''data engineer''"
             "Some example_roadmap"]
       falsy_decode_keeps_session
         [of "''null''" example_loads JNull "''python''" "''data engineer''"
             "Some example_roadmap"]
       h1 h2
  show ?thesis by simp
qed

section \<open>Parsing the month range and building the records\<close>

lemma py_split_nonempty: "py_split sep s \<noteq> []"
  by (induction s) (auto split: list.splits)

lemma hd_py_split: "hd (py_split sep s) = takeWhile (\<lambda>c. c \<noteq> sep) s"
  by (induction s) (auto split: list.splits simp: py_split_nonempty)

lemma last_py_split: "last (py_split sep s) = rev (takeWhile (\<lambda>c. c \<noteq> sep) (rev s))"
proof (induction s)
  case Nil
  then show ?case by simp
next
  case (Cons c s)
  show ?case
  proof (cases "sep \<in> set s")
    case True
    then have "takeWhile (\<lambda>c. c \<noteq> sep) (rev s @ [c]) = takeWhile (\<lambda>c. c \<noteq> sep) (rev s)"
      by (intro takeWhile_append1 [where x = sep]) auto
    moreover from True have "length (py_split sep s) \<ge> 2"
      by (induction s) (auto split: list.splits simp: py_split_nonempty Suc_le_eq)
    then have "last (py_split sep (c # s)) = last (py_split sep s)"
      by (cases "py_split sep s") (auto split: list.splits)
    ultimately show ?thesis using Cons by simp
  next
    case False
    then have s1: "py_split sep s = [s]"
      by (induction s) auto
    from False have "takeWhile (\<lambda>c. c \<noteq> sep) (rev s @ [c]) = rev s @ takeWhile (\<lambda>c. c \<noteq> sep) [c]"
      by (intro takeWhile_append2) auto
    then show ?thesis using s1 by auto
  qed
qed

lemma py_index_last: "xs \<noteq> [] \<Longrightarrow> py_index xs (- 1) = Inr (last xs)"
  by (cases xs rule: rev_cases) (auto simp: py_index_def nth_append)

lemma py_index_first: "xs \<noteq> [] \<Longrightarrow> py_index xs 0 = Inr (hd xs)"
  by (cases xs) (auto simp: py_index_def)

lemma py_slice_take: "py_slice xs 0 (int n) = take n xs"
  by (simp add: py_slice_def slice_bound_def min_def)

lemma extract_range_text:
  "extract_range (JString label) =
     (case take 2 (py_split (CHR ''-'') (range_text label)) of
        [start_str, end_str] \<Rightarrow>
          (case py_int (filter py_isdigit start_str) of
             Inl e \<Rightarrow> Inl e
           | Inr start \<Rightarrow>
               (case py_int (filter py_isdigit end_str) of
                  Inl e \<Rightarrow> Inl e
                | Inr finish \<Rightarrow> Inr (start, finish)))
      | _ \<Rightarrow> Inl ValueError)"
  using py_slice_take [of "py_split (CHR ''-'') (range_text label)" 2]
  by (simp add: extract_range_def py_index_last py_index_first py_split_nonempty
      last_py_split hd_py_split range_text_def)

lemma py_int_error: "py_int s = Inl e \<Longrightarrow> e = ValueError"
  by (auto simp: py_int_def int_max_str_digits_def split: if_splits)

lemma extract_range_error:
  "extract_range v = Inl e \<Longrightarrow> e = ValueError \<or> e = AttributeError"
proof (cases v)
  case (JString label)
  assume "extract_range v = Inl e"
  with JString show ?thesis
    by (auto simp: extract_range_text dest: py_int_error split: list.splits sum.splits)
qed (auto simp: extract_range_def)

lemma phase_range_total: "\<exists>start finish. phase_range v = Inr (start, finish)"
proof (cases "extract_range v")
  case (Inl e)
  with extract_range_error [of v e] show ?thesis
    by (auto simp: phase_range_def)
next
  case (Inr r)
  then show ?thesis by (cases r) (simp add: phase_range_def)
qed

lemma range_text_wrapped:
  assumes "CHR ''('' \<notin> set body" and "CHR '')'' \<notin> set body" and "CHR ''('' \<notin> set post"
  shows "range_text (pre @ CHR ''('' # body @ CHR '')'' # post) = body"
proof -
  have "rev (pre @ CHR ''('' # body @ CHR '')'' # post)
        = (rev post @ CHR '')'' # rev body) @ CHR ''('' # rev pre"
    by simp
  moreover have "takeWhile (\<lambda>c. c \<noteq> CHR ''('') ((rev post @ CHR '')'' # rev body) @ CHR ''('' # rev pre)
        = rev post @ CHR '')'' # rev body"
    using assms by (subst takeWhile_tail) (auto simp: takeWhile_eq_all_conv)
  moreover have "takeWhile (\<lambda>c. c \<noteq> CHR '')'') (body @ CHR '')'' # post) = body"
    using assms by (subst takeWhile_tail) (auto simp: takeWhile_eq_all_conv)
  ultimately show ?thesis
    by (simp add: range_text_def)
qed

lemma py_split_at_sep:
  "sep \<notin> set a \<Longrightarrow> py_split sep (a @ sep # r) = a # py_split sep r"
  by (induction a) auto

lemma take_two_pieces: "take 2 (a # py_split sep r) = [a, takeWhile (\<lambda>c. c \<noteq> sep) r]"
  using py_split_nonempty [of sep r] hd_py_split [of sep r]
  by (cases "py_split sep r") (auto simp: numeral_2_eq_2)

lemma decimal_char:
  "is_decimal c \<Longrightarrow>
     py_isdigit c \<and> c \<noteq> CHR ''('' \<and> c \<noteq> CHR '')'' \<and> c \<noteq> CHR ''-''"
  by (auto simp: is_decimal_def py_isdigit_def)

lemma filter_decimal: "list_all is_decimal a \<Longrightarrow> filter py_isdigit a = a"
  by (induction a) (auto simp: decimal_char)

lemma py_int_decimal:
  "a \<noteq> [] \<Longrightarrow> list_all is_decimal a \<Longrightarrow> length a \<le> int_max_str_digits \<Longrightarrow>
     py_int a = Inr (decimal_value a)"
  by (simp add: py_int_def int_max_str_digits_def)

lemma focus_loop_records:
  assumes "py_getitem phase ''milestones'' = Inr ms" and "py_join ''\<newline>'' ms = Inr joined"
  shows "focus_loop phase phase_name start finish areas gantt_data
         = Inr (gantt_data
                @ map (\<lambda>area. \<lparr>Task = area, Phase = phase_name, Start = start,
                                Finish = finish, Milestones = joined\<rparr>) areas)"
  using assms by (induction areas arbitrary: gantt_data) simp_all

lemma py_join_texts:
  "list_all is_text xs \<Longrightarrow> py_join sep (JArray xs) = Inr (join_strs sep (texts (JArray xs)))"
proof -
  assume a: "list_all is_text xs"
  have "list_all (\<lambda>x. str_of x \<noteq> None) xs"
    using a by (induction xs) (auto elim: is_text.elims)
  moreover have "map (\<lambda>x. the (str_of x)) xs = List.map_filter str_of xs"
    using a by (induction xs) (auto simp: map_filter_simps elim: is_text.elims)
  ultimately show ?thesis
    by (simp add: py_join_def py_iter_def texts_def)
qed

lemma has_key_getitem: "has_key v key \<Longrightarrow> py_getitem v key = Inr (the_field v key)"
  by (auto simp: has_key_def the_field_def split: sum.splits)

lemma phase_ok_fields:
  assumes "phase_ok phase"
  shows "py_getitem phase ''phase'' = Inr (the_field phase ''phase'')"
    and "py_getitem phase ''focus_areas'' = Inr (the_field phase ''focus_areas'')"
    and "py_getitem phase ''milestones'' = Inr (the_field phase ''milestones'')"
    and "py_iter (the_field phase ''focus_areas'') = Inr (items (the_field phase ''focus_areas''))"
    and "py_join ''\<newline>'' (the_field phase ''milestones'')
         = Inr (join_strs ''\<newline>'' (texts (the_field phase ''milestones'')))"
proof -
  show "py_getitem phase ''phase'' = Inr (the_field phase ''phase'')"
    and "py_getitem phase ''focus_areas'' = Inr (the_field phase ''focus_areas'')"
    and "py_getitem phase ''milestones'' = Inr (the_field phase ''milestones'')"
    using assms by (simp_all add: phase_ok_def has_key_getitem)
  show "py_iter (the_field phase ''focus_areas'') = Inr (items (the_field phase ''focus_areas''))"
    using assms by (cases "the_field phase ''focus_areas''") (auto simp: phase_ok_def py_iter_def)
  show "py_join ''\<newline>'' (the_field phase ''milestones'')
         = Inr (join_strs ''\<newline>'' (texts (the_field phase ''milestones'')))"
    using assms py_join_texts [of "items (the_field phase ''milestones'')" "''\<newline>''"]
    by (cases "the_field phase ''milestones''") (auto simp: phase_ok_def)
qed

lemma phase_loop_step:
  assumes "phase_ok phase"
  shows "phase_loop (phase # phases) gantt_data
         = phase_loop phases (gantt_data @ expected_records phase)"
proof -
  obtain start finish where r: "phase_range (the_field phase ''phase'') = Inr (start, finish)"
    using phase_range_total by blast
  then have m: "month_range (the_field phase ''phase'') = (start, finish)"
    by (simp add: month_range_def)
  show ?thesis
    using phase_ok_fields [OF assms] r
      focus_loop_records [OF phase_ok_fields(3) [OF assms] phase_ok_fields(5) [OF assms]]
    by (simp add: expected_records_def m)
qed

lemma phase_loop_records:
  "\<forall>phase\<in>set phases. phase_ok phase \<Longrightarrow>
     phase_loop phases gantt_data = Inr (gantt_data @ concat (map expected_records phases))"
proof (induction phases arbitrary: gantt_data)
  case Nil
  then show ?case by simp
next
  case (Cons phase phases)
  then have "phase_ok phase" and rest: "\<forall>phase\<in>set phases. phase_ok phase"
    by simp_all
  then have "phase_loop (phase # phases) gantt_data
             = phase_loop phases (gantt_data @ expected_records phase)"
    by (simp only: phase_loop_step)
  also have "\<dots> = Inr ((gantt_data @ expected_records phase)
                         @ concat (map expected_records phases))"
    using rest by (rule Cons.IH)
  finally show ?case by simp
qed

lemma build_gantt_records:
  assumes "map_of kvs ''timeline'' = Some (JArray phases)"
      and "\<forall>phase\<in>set phases. phase_ok phase"
  shows "build_gantt (JObject kvs) = Inr (concat (map expected_records phases))"
  using assms phase_loop_records [of phases "[]"]
  by (simp add: build_gantt_def py_get_def py_iter_def)

lemma length_expected_records:
  "length (expected_records phase) = length (items (the_field phase ''focus_areas''))"
  by (simp add: expected_records_def)

lemma fallback_label_range:
  assumes "fallback_label label"
  shows "phase_range (JString label) = Inr (0, 3)"
proof -
  obtain p ps where sp: "py_split (CHR ''-'') (range_text label) = p # ps"
    using py_split_nonempty [of "CHR ''-''" "range_text label"] by (cases "py_split (CHR ''-'') (range_text label)") auto
  have "extract_range (JString label) = Inl ValueError"
  proof (cases ps)
    case Nil
    with sp show ?thesis by (simp add: extract_range_text)
  next
    case (Cons q qs)
    with sp assms have "filter py_isdigit p = [] \<or> filter py_isdigit q = []"
      by (auto simp: fallback_label_def numeral_2_eq_2)
    with sp Cons show ?thesis
      by (auto simp: extract_range_text numeral_2_eq_2 py_int_def int_max_str_digits_def split: sum.splits)
  qed
  then show ?thesis by (simp add: phase_range_def)
qed

lemma sample_phase_fields:
  "the_field (sample_phase label areas ms) ''phase'' = JString label"
  "the_field (sample_phase label areas ms) ''focus_areas'' = JArray (map JString areas)"
  "the_field (sample_phase label areas ms) ''milestones'' = JArray (map JString ms)"
  by (simp_all add: sample_phase_def the_field_def py_getitem_def)

lemma sample_phase_ok: "phase_ok (sample_phase label areas ms)"
proof -
  have "list_all is_text (map JString ms)"
    by (induction ms) simp_all
  then show ?thesis
    by (simp add: phase_ok_def sample_phase_fields)
       (simp add: has_key_def sample_phase_def py_getitem_def)
qed

section \<open>The timeline extractor\<close>

text \<open>
  C4, amended. A label \<open>pre (a-b units) post\<close>, where \<open>a\<close> and \<open>b\<close> are decimal digit
  sequences that are not empty and no longer than \<open>int()\<close> accepts (4300 digits),
  \<open>units\<close> has no digit and no parenthesis and \<open>post\<close> has no opening parenthesis,
  gives the start month \<open>a\<close> and the end month \<open>b\<close>, whatever \<open>pre\<close> is.
\<close>

theorem range_of_wellformed_label:
  assumes a: "a \<noteq> []" "list_all is_decimal a" "length a \<le> int_max_str_digits"
      and b: "b \<noteq> []" "list_all is_decimal b" "length b \<le> int_max_str_digits"
      and units: "\<forall>c\<in>set units. \<not> py_isdigit c \<and> c \<noteq> CHR ''('' \<and> c \<noteq> CHR '')''"
      and post: "CHR ''('' \<notin> set post"
  shows "phase_range (JString (pre @ ''('' @ a @ ''-'' @ b @ units @ '')'' @ post))
         = Inr (decimal_value a, decimal_value b)"
proof -
  define body where "body = a @ CHR ''-'' # b @ units"
  have dec: "\<forall>c\<in>set (a @ b). c \<noteq> CHR ''('' \<and> c \<noteq> CHR '')'' \<and> c \<noteq> CHR ''-''"
    using a(2) b(2) by (auto simp: list_all_iff dest: decimal_char)
  have "CHR ''('' \<notin> set body" and "CHR '')'' \<notin> set body"
    using dec units by (auto simp: body_def)
  then have rt: "range_text (pre @ CHR ''('' # body @ CHR '')'' # post) = body"
    using post by (rule range_text_wrapped)
  have "CHR ''-'' \<notin> set a"
    using dec by auto
  then have pieces: "py_split (CHR ''-'') body = a # py_split (CHR ''-'') (b @ units)"
    unfolding body_def by (rule py_split_at_sep)
  have "takeWhile (\<lambda>c. c \<noteq> CHR ''-'') (b @ units) = b @ takeWhile (\<lambda>c. c \<noteq> CHR ''-'') units"
    using dec by (intro takeWhile_append2) auto
  moreover have "filter py_isdigit (takeWhile (\<lambda>c. c \<noteq> CHR ''-'') units) = []"
    using units by (auto simp: filter_empty_conv dest: set_takeWhileD)
  ultimately have second:
    "filter py_isdigit (takeWhile (\<lambda>c. c \<noteq> CHR ''-'') (b @ units)) = b"
    using b(2) by (simp add: filter_decimal)
  have "extract_range (JString (pre @ CHR ''('' # body @ CHR '')'' # post))
        = Inr (decimal_value a, decimal_value b)"
    unfolding extract_range_text rt pieces take_two_pieces
    using a b by (simp add: second filter_decimal py_int_decimal)
  then show ?thesis
    by (simp add: phase_range_def body_def)
qed

theorem range_of_wellformed_label_witness:
  "''0'' \<noteq> [] \<and> list_all is_decimal ''0'' \<and> length ''0'' \<le> int_max_str_digits
   \<and> ''3'' \<noteq> [] \<and> list_all is_decimal ''3'' \<and> length ''3'' \<le> int_max_str_digits
   \<and> list_all (\<lambda>c. \<not> py_isdigit c \<and> c \<noteq> CHR ''('' \<and> c \<noteq> CHR '')'') '' months''
   \<and> CHR ''('' \<notin> set ''''
   \<and> phase_range (JString ''Phase 1 (0-3 months)'') = Inr (0, 3)"
proof -
  have h: "''0'' \<noteq> []" "list_all is_decimal ''0''" "length ''0'' \<le> int_max_str_digits"
    "''3'' \<noteq> []" "list_all is_decimal ''3''" "length ''3'' \<le> int_max_str_digits"
    "\<forall>c\<in>set '' months''. \<not> py_isdigit c \<and> c \<noteq> CHR ''('' \<and> c \<noteq> CHR '')''"
    "CHR ''('' \<notin> set ''''"
    by (simp_all add: is_decimal_def py_isdigit_def int_max_str_digits_def)
  have v: "decimal_value ''0'' = 0" "decimal_value ''3'' = 3"
    by (simp_all add: decimal_value_def digit_value_def)
  from range_of_wellformed_label [OF h, of "''Phase 1 ''"] h v show ?thesis
    by simp
qed

text \<open>
  C4 as stated fails: the range is read after the last opening parenthesis of the
  label, so a parenthesis after a well-formed range hides it and the fallback is used.
\<close>

theorem later_parenthesis_counterexample:
  "''Phase 1 (2-5 months) (draft)'' = ''Phase 1 '' @ ''(2-5 months)'' @ '' (draft)''
   \<and> phase_range (JString ''Phase 1 (2-5 months) (draft)'') = Inr (0, 3)
   \<and> phase_range (JString ''Phase 1 (2-5 months) (draft)'') \<noteq> Inr (2, 5)"
  by (simp add: phase_range_def extract_range_def py_index_def py_slice_def slice_bound_def
      py_int_def int_max_str_digits_def py_isdigit_def is_decimal_def)

text \<open>
  C5, amended. A label whose range text has no dash, or one of whose first two range
  pieces has no digit, gives the fallback months 0 and 3 and no exception. In a
  timeline of well-formed phases the records of such a phase carry 0 and 3, and the
  phases before and after it give the records they give on their own.
\<close>

theorem fallback_range:
  assumes "fallback_label label"
  shows "phase_range (JString label) = Inr (0, 3)
       \<and> (map_of kvs ''timeline'' = Some (JArray (before @ phase # after))
            \<and> phase_ok phase \<and> the_field phase ''phase'' = JString label
            \<and> (\<forall>p\<in>set before \<union> set after. phase_ok p)
          \<longrightarrow> build_gantt (JObject kvs)
              = Inr (concat (map expected_records before)
                     @ map (\<lambda>area.
                              \<lparr>Task = area, Phase = JString label, Start = 0, Finish = 3,
                               Milestones =
                                 join_strs ''\<newline>'' (texts (the_field phase ''milestones''))\<rparr>)
                           (items (the_field phase ''focus_areas''))
                     @ concat (map expected_records after)))"
proof -
  have r: "phase_range (JString label) = Inr (0, 3)"
    using assms by (rule fallback_label_range)
  then have "the_field phase ''phase'' = JString label \<Longrightarrow>
      expected_records phase
      = map (\<lambda>area.
               \<lparr>Task = area, Phase = JString label, Start = 0, Finish = 3,
                Milestones = join_strs ''\<newline>'' (texts (the_field phase ''milestones''))\<rparr>)
            (items (the_field phase ''focus_areas''))"
    by (simp add: expected_records_def month_range_def)
  with r show ?thesis
    using build_gantt_records [of kvs "before @ phase # after"] by auto
qed

theorem fallback_range_witness:
  "fallback_label ''Foundations'' \<and> fallback_label ''Phase 2 (x-y months)''
   \<and> fallback_label ''Phase 3 (3 months)''
   \<and> phase_range (JString ''Foundations'') = Inr (0, 3)
   \<and> build_gantt
        (JObject
           [(''timeline'',
             JArray
               [sample_phase ''Phase 1 (1-2 months)'' [''SQL''] [''m1''],
                sample_phase ''Foundations'' [''Python'', ''Git''] [''m2'', ''m3''],
                sample_phase ''Phase 3 (4-6 months)'' [''Spark''] []])])
       = Inr [\<lparr>Task = JString ''SQL'', Phase = JString ''Phase 1 (1-2 months)'', Start = 1,
                Finish = 2, Milestones = ''m1''\<rparr>,
              \<lparr>Task = JString ''Python'', Phase = JString ''Foundations'', Start = 0,
                Finish = 3, Milestones = ''m2\<newline>m3''\<rparr>,
              \<lparr>Task = JString ''Git'', Phase = JString ''Foundations'', Start = 0,
                Finish = 3, Milestones = ''m2\<newline>m3''\<rparr>,
              \<lparr>Task = JString ''Spark'', Phase = JString ''Phase 3 (4-6 months)'', Start = 4,
                Finish = 6, Milestones = ''''\<rparr>]"
proof -
  have f: "fallback_label ''Foundations''" "fallback_label ''Phase 2 (x-y months)''"
    "fallback_label ''Phase 3 (3 months)''"
    by (simp_all add: fallback_label_def range_text_def py_isdigit_def is_decimal_def)
  have p1: "phase_range (JString ''Phase 1 (1-2 months)'') = Inr (1, 2)"
    and p3: "phase_range (JString ''Phase 3 (4-6 months)'') = Inr (4, 6)"
    by (simp_all add: phase_range_def extract_range_def py_index_def py_slice_def
        slice_bound_def py_int_def int_max_str_digits_def py_isdigit_def is_decimal_def decimal_value_def
        digit_value_def)
  have e1: "expected_records (sample_phase ''Phase 1 (1-2 months)'' [''SQL''] [''m1''])
            = [\<lparr>Task = JString ''SQL'', Phase = JString ''Phase 1 (1-2 months)'', Start = 1,
                 Finish = 2, Milestones = ''m1''\<rparr>]"
    by (simp add: expected_records_def sample_phase_fields month_range_def p1 texts_def map_filter_simps)
  have e3: "expected_records (sample_phase ''Phase 3 (4-6 months)'' [''Spark''] [])
            = [\<lparr>Task = JString ''Spark'', Phase = JString ''Phase 3 (4-6 months)'', Start = 4,
                 Finish = 6, Milestones = ''''\<rparr>]"
    by (simp add: expected_records_def sample_phase_fields month_range_def p3 texts_def map_filter_simps)
  from fallback_range
         [OF f(1),
          of "[(''timeline'',
                JArray
                  [sample_phase ''Phase 1 (1-2 months)'' [''SQL''] [''m1''],
                   sample_phase ''Foundations'' [''Python'', ''Git''] [''m2'', ''m3''],
                   sample_phase ''Phase 3 (4-6 months)'' [''Spark''] []])]"
             "[sample_phase ''Phase 1 (1-2 months)'' [''SQL''] [''m1'']]"
             "sample_phase ''Foundations'' [''Python'', ''Git''] [''m2'', ''m3'']"
             "[sample_phase ''Phase 3 (4-6 months)'' [''Spark''] []]"]
  show ?thesis
    using f by (simp add: sample_phase_ok sample_phase_fields texts_def map_filter_simps e1 e3)
qed

text \<open>
  C5 as stated fails: a label without parentheses is parsed as a whole. The label
  \<open>Weeks 2-5\<close> has no parenthesis and gives the months 2 and 5, not the fallback.
\<close>

theorem no_parentheses_counterexample:
  "CHR ''('' \<notin> set ''Weeks 2-5'' \<and> CHR '')'' \<notin> set ''Weeks 2-5''
   \<and> phase_range (JString ''Weeks 2-5'') = Inr (2, 5)"
  by (simp add: phase_range_def extract_range_def py_index_def py_slice_def slice_bound_def
      py_int_def int_max_str_digits_def py_isdigit_def is_decimal_def decimal_value_def digit_value_def)

text \<open>
  C6. For a roadmap whose timeline is a list of well-formed phases,
  \<open>gantt_data\<close> is the concatenation, in phase order, of the expected records of
  each phase, one per focus area in order; its length is the sum of the numbers of
  focus areas; the chart is drawn from exactly these records when there are any.
\<close>

theorem one_record_per_focus_area:
  assumes "map_of kvs ''timeline'' = Some (JArray phases)"
      and "\<forall>phase\<in>set phases. phase_ok phase"
  shows "build_gantt (JObject kvs) = Inr (concat (map expected_records phases))
       \<and> length (concat (map expected_records phases))
           = sum_list (map (\<lambda>phase. length (items (the_field phase ''focus_areas''))) phases)
       \<and> plot_timeline (JObject kvs)
           = Inr (if concat (map expected_records phases) = [] then NoChart
                  else Chart (concat (map expected_records phases)))"
proof -
  have b: "build_gantt (JObject kvs) = Inr (concat (map expected_records phases))"
    using assms by (rule build_gantt_records)
  have "kvs \<noteq> []"
    using assms(1) by auto
  then have "plot_timeline (JObject kvs)
             = Inr (if concat (map expected_records phases) = [] then NoChart
                    else Chart (concat (map expected_records phases)))"
    by (simp add: plot_timeline_def b)
  moreover have "length (concat (map expected_records phases))
           = sum_list (map (\<lambda>phase. length (items (the_field phase ''focus_areas''))) phases)"
    by (simp add: length_concat comp_def length_expected_records)
  ultimately show ?thesis
    using b by simp
qed

theorem one_record_per_focus_area_witness:
  "map_of [(''timeline'',
            JArray
              [sample_phase ''Phase 1 (0-3 months)'' [''SQL''] [''m1''],
               sample_phase ''Phase 2 (3-6 months)'' [''Spark'', ''Airflow''] [''m2'', ''m3'']])]
      ''timeline''
     = Some (JArray
              [sample_phase ''Phase 1 (0-3 months)'' [''SQL''] [''m1''],
               sample_phase ''Phase 2 (3-6 months)'' [''Spark'', ''Airflow''] [''m2'', ''m3'']])
   \<and> list_all phase_ok
        [sample_phase ''Phase 1 (0-3 months)'' [''SQL''] [''m1''],
         sample_phase ''Phase 2 (3-6 months)'' [''Spark'', ''Airflow''] [''m2'', ''m3'']]
   \<and> build_gantt
        (JObject
           [(''timeline'',
             JArray
               [sample_phase ''Phase 1 (0-3 months)'' [''SQL''] [''m1''],
                sample_phase ''Phase 2 (3-6 months)'' [''Spark'', ''Airflow'']
                  [''m2'', ''m3'']])])
       = Inr [\<lparr>Task = JString ''SQL'', Phase = JString ''Phase 1 (0-3 months)'', Start = 0,
                Finish = 3, Milestones = ''m1''\<rparr>,
              \<lparr>Task = JString ''Spark'', Phase = JString ''Phase 2 (3-6 months)'', Start = 3,
                Finish = 6, Milestones = ''m2\<newline>m3''\<rparr>,
              \<lparr>Task = JString ''Airflow'', Phase = JString ''Phase 2 (3-6 months)'', Start = 3,
                Finish = 6, Milestones = ''m2\<newline>m3''\<rparr>]"
proof -
  have h1: "map_of [(''timeline'',
            JArray
              [sample_phase ''Phase 1 (0-3 months)'' [''SQL''] [''m1''],
               sample_phase ''Phase 2 (3-6 months)'' [''Spark'', ''Airflow''] [''m2'', ''m3'']])]
      ''timeline''
     = Some (JArray
              [sample_phase ''Phase 1 (0-3 months)'' [''SQL''] [''m1''],
               sample_phase ''Phase 2 (3-6 months)'' [''Spark'', ''Airflow''] [''m2'', ''m3'']])"
    by simp
  have h2: "\<forall>phase\<in>set [sample_phase ''Phase 1 (0-3 months)'' [''SQL''] [''m1''],
                     sample_phase ''Phase 2 (3-6 months)'' [''Spark'', ''Airflow'']
                       [''m2'', ''m3'']].
         phase_ok phase"
    by (simp add: sample_phase_ok)
  have p1: "phase_range (JString ''Phase 1 (0-3 months)'') = Inr (0, 3)"
    and p2: "phase_range (JString ''Phase 2 (3-6 months)'') = Inr (3, 6)"
    by (simp_all add: phase_range_def extract_range_def py_index_def py_slice_def
        slice_bound_def py_int_def int_max_str_digits_def py_isdigit_def is_decimal_def decimal_value_def
        digit_value_def)
  have e1: "expected_records (sample_phase ''Phase 1 (0-3 months)'' [''SQL''] [''m1''])
            = [\<lparr>Task = JString ''SQL'', Phase = JString ''Phase 1 (0-3 months)'', Start = 0,
                 Finish = 3, Milestones = ''m1''\<rparr>]"
    by (simp add: expected_records_def sample_phase_fields month_range_def p1 texts_def map_filter_simps)
  have e2: "expected_records
              (sample_phase ''Phase 2 (3-6 months)'' [''Spark'', ''Airflow''] [''m2'', ''m3''])
            = [\<lparr>Task = JString ''Spark'', Phase = JString ''Phase 2 (3-6 months)'', Start = 3,
                Finish = 6, Milestones = ''m2\<newline>m3''\<rparr>,
              \<lparr>Task = JString ''Airflow'', Phase = JString ''Phase 2 (3-6 months)'', Start = 3,
                Finish = 6, Milestones = ''m2\<newline>m3''\<rparr>]"
    by (simp add: expected_records_def sample_phase_fields month_range_def p2 texts_def map_filter_simps)
  from one_record_per_focus_area [OF h1 h2] h1 h2 show ?thesis
    by (simp add: e1 e2)
qed

text \<open>
  C7. A roadmap with an empty timeline gives no record, and whenever the loop ends
  with no record \<open>plot_timeline\<close> returns before the chart is built, without an
  exception. A chart is only ever drawn from a list of records that is not empty.
\<close>

theorem nothing_to_render:
  "(map_of kvs ''timeline'' = Some (JArray [])
      \<longrightarrow> build_gantt (JObject kvs) = Inr [] \<and> plot_timeline (JObject kvs) = Inr NoChart)
   \<and> (build_gantt roadmap_data = Inr [] \<longrightarrow> plot_timeline roadmap_data = Inr NoChart)
   \<and> (plot_timeline roadmap_data = Inr (Chart records)
      \<longrightarrow> records \<noteq> [] \<and> build_gantt roadmap_data = Inr records)"
proof -
  have "map_of kvs ''timeline'' = Some (JArray []) \<Longrightarrow> build_gantt (JObject kvs) = Inr []"
    by (simp add: build_gantt_def py_get_def py_iter_def)
  then show ?thesis
    by (auto simp: plot_timeline_def split: if_splits sum.splits)
qed

theorem nothing_to_render_witness:
  "map_of [(''roadmap_name'', JString ''X''), (''timeline'', JArray [])] ''timeline''
     = Some (JArray [])
   \<and> plot_timeline (JObject [(''roadmap_name'', JString ''X''), (''timeline'', JArray [])])
       = Inr NoChart
   \<and> build_gantt (JObject [(''timeline'', JArray [sample_phase ''Phase 1 (0-3 months)'' [] []])])
       = Inr []
   \<and> plot_timeline (JObject [(''timeline'', JArray [sample_phase ''Phase 1 (0-3 months)'' [] []])])
       = Inr NoChart"
proof -
  have h: "map_of [(''roadmap_name'', JString ''X''), (''timeline'', JArray [])] ''timeline''
           = Some (JArray [])"
    by simp
  have p: "phase_range (JString ''Phase 1 (0-3 months)'') = Inr (0, 3)"
    by (simp add: phase_range_def extract_range_def py_index_def py_slice_def
        slice_bound_def py_int_def int_max_str_digits_def py_isdigit_def is_decimal_def decimal_value_def
        digit_value_def)
  have b: "build_gantt (JObject [(''timeline'', JArray [sample_phase ''Phase 1 (0-3 months)'' [] []])])
           = Inr []"
    by (simp add: build_gantt_def py_get_def py_iter_def sample_phase_def py_getitem_def p)
  from nothing_to_render
         [of "[(''roadmap_name'', JString ''X''), (''timeline'', JArray [])]"
             "JObject [(''timeline'', JArray [sample_phase ''Phase 1 (0-3 months)'' [] []])]"]
       h b
  show ?thesis by simp
qed

text \<open>
  C9. A dict without the key \<open>timeline\<close> gives no record and no chart, without an
  exception; a phase without the key \<open>phase\<close> raises \<open>KeyError\<close>.
\<close>

theorem missing_timeline_key:
  assumes "map_of kvs ''timeline'' = None"
  shows "build_gantt (JObject kvs) = Inr [] \<and> plot_timeline (JObject kvs) = Inr NoChart
       \<and> plot_timeline (JObject [(''timeline'', JArray [JObject [(''focus_areas'', JArray [])]])])
           = Inl KeyError"
proof -
  have "build_gantt (JObject kvs) = Inr []"
    using assms by (simp add: build_gantt_def py_get_def py_iter_def)
  moreover have "build_gantt (JObject [(''timeline'', JArray [JObject [(''focus_areas'', JArray [])]])])
                 = Inl KeyError"
    by (simp add: build_gantt_def py_get_def py_iter_def py_getitem_def)
  ultimately show ?thesis
    by (simp add: plot_timeline_def)
qed

theorem missing_timeline_key_witness:
  "map_of [(''roadmap_name'', JString ''X''), (''gap_analysis'', JString ''g'')] ''timeline'' = None
   \<and> plot_timeline (JObject [(''roadmap_name'', JString ''X''), (''gap_analysis'', JString ''g'')])
       = Inr NoChart"
proof -
  have h: "map_of [(''roadmap_name'', JString ''X''), (''gap_analysis'', JString ''g'')] ''timeline''
           = None"
    by simp
  from missing_timeline_key [OF h] h show ?thesis
    by simp
qed

end
